theory Spec2Isabelle
  imports Complex_Main "HOL-Library.Word"
begin

section \<open>waypoint\_maker: a teleoperated waypoint recorder\<close>

text \<open>
  A shallow embedding of \<^verbatim>\<open>src/waypoint_maker.cpp\<close>. The class \<^verbatim>\<open>WaypointMaker\<close>
  becomes a record of its member variables together with everything the node can
  change outside itself: the content of the CSV file, the messages published on the
  two output topics and the log. Each member function takes that record and returns
  the updated one.

  Conventions of the model:
  \<^item> A \<^verbatim>\<open>double\<close> or \<^verbatim>\<open>float\<close> is a value of the type \<open>double\<close> below: a real number or
    the negative zero. Arithmetic follows IEEE 754 on the sign of a zero and is exact
    otherwise: results are not rounded and do not overflow or underflow. NaN and the
    infinities are not values of the model. On the concrete values used below (0, 1,
    2 and their products and differences) IEEE arithmetic is exact as well.
  \<^item> \<^verbatim>\<open>int\<close> and \<^verbatim>\<open>int32\<close> are \<^typ>\<open>32 word\<close>, read as two's complement by
    \<^const>\<open>sint\<close>; \<open>+\<close> wraps. C++ leaves the overflow of \<^verbatim>\<open>waypoint_id_++\<close> undefined;
    the compiled increment wraps, and no \<^verbatim>\<open>int\<close> lies above 2147483647 in any case.
  \<^item> \<^verbatim>\<open>std::vector::operator[]\<close> out of range is undefined behaviour in C++: the
    program may read whatever lies behind the vector or fault. The model gives such a
    read no meaning: the result \<open>Inl Undefined\<close> marks it, and every statement below
    is about messages that are large enough.
\<close>

subsection \<open>Floating-point numbers\<close>

text \<open>
  \<open>Fin r\<close> is the number \<open>r\<close>, with \<open>Fin 0\<close> the positive zero; \<open>NegZero\<close> is the
  negative zero.
\<close>

datatype double = Fin real | NegZero

fun dval :: "double \<Rightarrow> real" where
  "dval (Fin r) = r"
| "dval NegZero = 0"

fun sign_bit :: "double \<Rightarrow> bool" where
  "sign_bit (Fin r) = (r < 0)"
| "sign_bit NegZero = True"

text \<open>
  The product: a zero product carries the exclusive or of the signs. The difference:
  an exact zero is positive, except for \<open>(-0) - (+0)\<close>.
\<close>

definition dmul :: "double \<Rightarrow> double \<Rightarrow> double" where
  "dmul a b =
     (if dval a * dval b = 0 then (if sign_bit a \<noteq> sign_bit b then NegZero else Fin 0)
      else Fin (dval a * dval b))"

definition dsub :: "double \<Rightarrow> double \<Rightarrow> double" where
  "dsub a b =
     (if dval a - dval b = 0 then (if a = NegZero \<and> b = Fin 0 then NegZero else Fin 0)
      else Fin (dval a - dval b))"

subsection \<open>Messages\<close>

record point =
  px :: double
  py :: double
  pz :: double

record quaternion =
  qx :: double
  qy :: double
  qz :: double
  qw :: double

record pose =
  position :: point
  orientation :: quaternion

record vector3 =
  vx :: double
  vy :: double
  vz :: double

record twist =
  linear :: vector3
  angular :: vector3

record joy =
  axes :: "double list"
  buttons :: "32 word list"

record color_rgba =
  color_r :: double
  color_g :: double
  color_b :: double
  color_a :: double

type_synonym ros_time = "32 word \<times> 32 word"

text \<open>The shape and action constants of \<^verbatim>\<open>visualization_msgs/Marker\<close>.\<close>

datatype marker_shape = ARROW | CUBE | SPHERE | CYLINDER | LINE_STRIP | LINE_LIST
  | CUBE_LIST | SPHERE_LIST | POINTS | TEXT_VIEW_FACING | MESH_RESOURCE | TRIANGLE_LIST

datatype marker_action = ADD | DELETE | DELETEALL

text \<open>
  The fields of the marker that \<^verbatim>\<open>createArrowMarker\<close> assigns; the remaining fields
  of the message keep their defaults and are not modelled.
\<close>

record marker =
  header_frame_id :: string
  header_stamp :: ros_time
  ns :: string
  marker_id :: "32 word"
  marker_type :: marker_shape
  action :: marker_action
  marker_pose :: pose
  scale :: vector3
  color :: color_rgba

text \<open>A message taken from a subscriber queue by \<^verbatim>\<open>ros::spinOnce\<close>.\<close>

datatype event = JoyMsg joy | AmclPoseMsg pose

subsection \<open>Log\<close>

text \<open>
  One constructor for each \<^verbatim>\<open>ROS_INFO\<close> or \<^verbatim>\<open>ROS_ERROR\<close> call of the source, carrying
  the arguments of its format string.
\<close>

datatype log_entry =
    InfoCurrentPosition double double
  | InfoPosition double double
  | InfoOrientation double double
  | InfoWaypointSaved double double double
  | ErrorCsvOpenFailed

subsection \<open>Library functions used by the node\<close>

text \<open>
  The angle of the point \<open>(x, y)\<close> of the plane, in \<open>(-\<pi>, \<pi>]\<close>, and 0 at the origin.
\<close>

definition polar_angle :: "real \<Rightarrow> real \<Rightarrow> real" where
  "polar_angle y x =
     (if 0 < x then arctan (y / x)
      else if x < 0 then (if 0 \<le> y then arctan (y / x) + pi else arctan (y / x) - pi)
      else if 0 < y then pi / 2
      else if y < 0 then - (pi / 2)
      else 0)"

text \<open>
  \<^verbatim>\<open>atan2(y, x)\<close> of the C library (C99, annex F.9.1.4). When \<open>y\<close> is a zero the
  result has the sign of \<open>y\<close>: it is \<open>\<plusminus>\<pi>\<close> for \<open>x\<close> negative or the negative zero, and
  the zero \<open>y\<close> itself otherwise. For every other \<open>y\<close> it is the angle of \<open>(x, y)\<close>.
\<close>

definition atan2 :: "double \<Rightarrow> double \<Rightarrow> double" where
  "atan2 y x =
     (if dval y = 0 then
        (if dval x < 0 \<or> x = NegZero then (if y = NegZero then Fin (- pi) else Fin pi)
         else y)
      else Fin (polar_angle (dval y) (dval x)))"

text \<open>
  \<^verbatim>\<open>std::ostream::operator<<(double)\<close> on a stream with its default flags: no
  \<^verbatim>\<open>floatfield\<close> and precision 6, which is the \<^verbatim>\<open>%g\<close> conversion of \<^verbatim>\<open>printf\<close>. The
  value is rounded to six significant digits; with \<open>X\<close> the decimal exponent of the
  rounded value, fixed notation is used when \<open>-4 \<le> X < 6\<close> and scientific notation
  otherwise; trailing zeros of the fraction are removed, and the decimal point with
  them when nothing remains.
\<close>

definition digit_char :: "nat \<Rightarrow> char" where
  "digit_char d = ''0123456789'' ! (d mod 10)"

text \<open>The \<open>n\<close> lowest decimal digits of \<open>m\<close>, most significant first.\<close>

fun dec_digits :: "nat \<Rightarrow> nat \<Rightarrow> string" where
  "dec_digits 0 m = []"
| "dec_digits (Suc n) m = dec_digits n (m div 10) @ [digit_char (m mod 10)]"

text \<open>The exponent field of \<^verbatim>\<open>%e\<close>: at least two digits.\<close>

definition exp_digits :: "nat \<Rightarrow> string" where
  "exp_digits n = (if n < 100 then dec_digits 2 n else dec_digits 3 n)"

definition strip_zeros :: "string \<Rightarrow> string" where
  "strip_zeros s = rev (dropWhile (\<lambda>c. c = CHR ''0'') (rev s))"

definition fraction_part :: "string \<Rightarrow> string" where
  "fraction_part f = (let f' = strip_zeros f in if f' = [] then [] else ''.'' @ f')"

definition round_half_even :: "real \<Rightarrow> int" where
  "round_half_even r =
     (let f = \<lfloor>r\<rfloor>; d = r - of_int f
      in if d < 1 / 2 then f
         else if 1 / 2 < d then f + 1
         else if even f then f else f + 1)"

text \<open>
  The decimal exponent \<open>e\<close> of a positive value \<open>a\<close>, with \<open>10 ^ e \<le> a < 10 ^ (e + 1)\<close>,
  found by scaling. The first argument bounds the search; every finite nonzero
  \<^verbatim>\<open>double\<close> has an exponent between -324 and 308.
\<close>

fun dec_exp :: "nat \<Rightarrow> real \<Rightarrow> int" where
  "dec_exp 0 a = 0"
| "dec_exp (Suc n) a =
     (if 10 \<le> a then dec_exp n (a / 10) + 1
      else if a < 1 then dec_exp n (a * 10) - 1
      else 0)"

definition scale10 :: "real \<Rightarrow> int \<Rightarrow> real" where
  "scale10 a k = (if 0 \<le> k then a * 10 ^ nat k else a / 10 ^ nat (- k))"

text \<open>
  The text of a value from its six significant digits \<open>ds\<close> and its decimal
  exponent \<open>X\<close>, without the sign.
\<close>

definition layout :: "string \<Rightarrow> int \<Rightarrow> string" where
  "layout ds X =
     (if - 4 \<le> X \<and> X < 6 then
        (if 0 \<le> X then take (nat X + 1) ds @ fraction_part (drop (nat X + 1) ds)
         else ''0'' @ fraction_part (replicate (nat (- X - 1)) CHR ''0'' @ ds))
      else take 1 ds @ fraction_part (drop 1 ds) @ ''e''
           @ (if X < 0 then ''-'' else ''+'') @ exp_digits (nat \<bar>X\<bar>))"

definition fmt_finite :: "real \<Rightarrow> string" where
  "fmt_finite v =
     (if v = 0 then ''0''
      else
        let a = \<bar>v\<bar>;
            e0 = dec_exp 400 a;
            m0 = nat (round_half_even (scale10 a (5 - e0)));
            m = (if m0 = 1000000 then 100000 else m0);
            X = (if m0 = 1000000 then e0 + 1 else e0)
        in (if v < 0 then ''-'' else []) @ layout (dec_digits 6 m) X)"

text \<open>The negative zero is written with its sign.\<close>

fun fmt_double :: "double \<Rightarrow> string" where
  "fmt_double (Fin v) = fmt_finite v"
| "fmt_double NegZero = ''-0''"

subsection \<open>The node\<close>

text \<open>
  The member variables \<^verbatim>\<open>current_pose_\<close>, \<^verbatim>\<open>save_waypoint_\<close> and \<^verbatim>\<open>waypoint_id_\<close>,
  and the world the node writes to: the content of the file at \<^verbatim>\<open>csv_file_path_\<close>,
  the messages published by \<^verbatim>\<open>cmd_vel_pub_\<close> and \<^verbatim>\<open>marker_pub_\<close>, oldest first, and
  the log. A field is named as the member without its trailing underscore.
\<close>

record waypoint_maker =
  current_pose :: pose
  save_waypoint :: bool
  waypoint_id :: "32 word"
  csv_file :: string
  cmd_vel_out :: "twist list"
  marker_out :: "marker list"
  log_out :: "log_entry list"

text \<open>
  The only way a callback can leave the defined behaviour of the program: a read
  behind the end of a vector.
\<close>

datatype error = Undefined

text \<open>What one iteration of the loop in \<^verbatim>\<open>run\<close> takes from its environment.\<close>

record cycle =
  pending :: "event list"
  open_ok :: bool
  now :: ros_time

definition zero_point :: point where
  "zero_point = \<lparr>px = Fin 0, py = Fin 0, pz = Fin 0\<rparr>"

definition zero_quaternion :: quaternion where
  "zero_quaternion = \<lparr>qx = Fin 0, qy = Fin 0, qz = Fin 0, qw = Fin 0\<rparr>"

definition zero_vector3 :: vector3 where
  "zero_vector3 = \<lparr>vx = Fin 0, vy = Fin 0, vz = Fin 0\<rparr>"

text \<open>A default-constructed \<^verbatim>\<open>geometry_msgs::Pose\<close> and \<^verbatim>\<open>geometry_msgs::Twist\<close>.\<close>

definition default_pose :: pose where
  "default_pose = \<lparr>position = zero_point, orientation = zero_quaternion\<rparr>"

definition default_twist :: twist where
  "default_twist = \<lparr>linear = zero_vector3, angular = zero_vector3\<rparr>"

text \<open>
  The constructor and the member initialisers (lines 12 to 33 and 61 to 68), on a
  given content of the CSV file.
\<close>

definition WaypointMaker :: "string \<Rightarrow> waypoint_maker" where
  "WaypointMaker file =
     \<lparr>current_pose =
        default_pose
          \<lparr>position := (position default_pose)\<lparr>px := Fin 0, py := Fin 0\<rparr>,
           orientation := (orientation default_pose)\<lparr>qz := Fin 0, qw := Fin 1\<rparr>\<rparr>,
      save_waypoint = False,
      waypoint_id = 0,
      csv_file = file,
      cmd_vel_out = [],
      marker_out = [],
      log_out = []\<rparr>"

text \<open>
  \<^verbatim>\<open>joyCallback\<close> (lines 71 to 82). The reads of \<^verbatim>\<open>buttons[2]\<close>, \<^verbatim>\<open>axes[3]\<close> and
  \<^verbatim>\<open>axes[0]\<close> are unchecked, in the order of the source; on a message that lacks one of
  them the result is \<open>Inl Undefined\<close>.
\<close>

definition joyCallback :: "joy \<Rightarrow> waypoint_maker \<Rightarrow> error + waypoint_maker" where
  "joyCallback joy_msg s =
     (if length (buttons joy_msg) \<le> 2 then Inl Undefined
      else
        let s1 = (if buttons joy_msg ! 2 = 1 then s\<lparr>save_waypoint := True\<rparr> else s)
        in if length (axes joy_msg) \<le> 3 then Inl Undefined
           else
             let tw = default_twist
                   \<lparr>linear := (linear default_twist)\<lparr>vx := axes joy_msg ! 3\<rparr>,
                    angular := (angular default_twist)\<lparr>vz := axes joy_msg ! 0\<rparr>\<rparr>
             in Inr (s1\<lparr>cmd_vel_out := cmd_vel_out s1 @ [tw]\<rparr>))"

definition amclPoseCallback :: "pose \<Rightarrow> waypoint_maker \<Rightarrow> waypoint_maker" where
  "amclPoseCallback msg_pose s =
     (let s1 = s\<lparr>current_pose := msg_pose\<rparr>;
          s2 = s1\<lparr>log_out := log_out s1 @
                 [InfoPosition (px (position (current_pose s1))) (py (position (current_pose s1)))]\<rparr>
      in s2\<lparr>log_out := log_out s2 @
              [InfoOrientation (qz (orientation (current_pose s2)))
                 (qw (orientation (current_pose s2)))]\<rparr>)"

text \<open>
  \<^verbatim>\<open>saveWaypointToCSV\<close>; the first argument says whether the \<^verbatim>\<open>ofstream\<close> opened.
\<close>

definition saveWaypointToCSV :: "bool \<Rightarrow> pose \<Rightarrow> waypoint_maker \<Rightarrow> waypoint_maker" where
  "saveWaypointToCSV is_open p s =
     (if is_open then
        let yaw = atan2 (dmul (Fin 2) (dmul (qw (orientation p)) (qz (orientation p))))
                    (dsub (Fin 1) (dmul (Fin 2) (dmul (qz (orientation p)) (qz (orientation p)))));
            s1 = s\<lparr>csv_file := csv_file s @ fmt_double (px (position p)) @ '','' @
                     fmt_double (py (position p)) @ '','' @ fmt_double yaw @ ''\<newline>''\<rparr>
        in s1\<lparr>log_out := log_out s1 @
                [InfoWaypointSaved (px (position p)) (py (position p)) yaw]\<rparr>
      else s\<lparr>log_out := log_out s @ [ErrorCsvOpenFailed]\<rparr>)"

definition createArrowMarker :: "ros_time \<Rightarrow> 32 word \<Rightarrow> pose \<Rightarrow> marker" where
  "createArrowMarker stamp i p =
     \<lparr>header_frame_id = ''map'',
      header_stamp = stamp,
      ns = ''waypoints'',
      marker_id = i,
      marker_type = ARROW,
      action = ADD,
      marker_pose = p,
      scale = \<lparr>vx = Fin (3 / 10), vy = Fin (1 / 10), vz = Fin 0\<rparr>,
      color = \<lparr>color_r = Fin 1, color_g = Fin 0, color_b = Fin 0, color_a = Fin 1\<rparr>\<rparr>"

text \<open>\<^verbatim>\<open>ros::spinOnce\<close>: the callbacks of the pending messages, in order.\<close>

fun dispatch :: "event \<Rightarrow> waypoint_maker \<Rightarrow> error + waypoint_maker" where
  "dispatch (JoyMsg m) s = joyCallback m s"
| "dispatch (AmclPoseMsg p) s = Inr (amclPoseCallback p s)"

fun spinOnce :: "event list \<Rightarrow> waypoint_maker \<Rightarrow> error + waypoint_maker" where
  "spinOnce [] s = Inr s"
| "spinOnce (e # es) s =
     (case dispatch e s of Inl err \<Rightarrow> Inl err | Inr s' \<Rightarrow> spinOnce es s')"

text \<open>Lines 41 to 53 of \<^verbatim>\<open>run\<close>: the check of the save flag after \<^verbatim>\<open>spinOnce\<close>.\<close>

definition save_if_requested :: "cycle \<Rightarrow> waypoint_maker \<Rightarrow> waypoint_maker" where
  "save_if_requested c s =
     (if save_waypoint s then
        let s1 = s\<lparr>log_out := log_out s @
                   [InfoCurrentPosition (px (position (current_pose s)))
                      (py (position (current_pose s)))]\<rparr>;
            s2 = saveWaypointToCSV (open_ok c) (current_pose s1) s1;
            m = createArrowMarker (now c) (waypoint_id s2) (current_pose s2);
            s3 = s2\<lparr>waypoint_id := waypoint_id s2 + 1\<rparr>;
            s4 = s3\<lparr>marker_out := marker_out s3 @ [m]\<rparr>
        in s4\<lparr>save_waypoint := False\<rparr>
      else s)"

text \<open>One iteration of the loop of \<^verbatim>\<open>run\<close> (the sleep changes nothing).\<close>

definition run_cycle :: "cycle \<Rightarrow> waypoint_maker \<Rightarrow> error + waypoint_maker" where
  "run_cycle c s =
     (case spinOnce (pending c) s of
        Inl err \<Rightarrow> Inl err
      | Inr s1 \<Rightarrow> Inr (save_if_requested c s1))"

text \<open>
  \<^verbatim>\<open>run\<close>: one iteration for each time \<^verbatim>\<open>ros::ok()\<close> held; the list ends where it
  no longer does.
\<close>

fun run :: "cycle list \<Rightarrow> waypoint_maker \<Rightarrow> error + waypoint_maker" where
  "run [] s = Inr s"
| "run (c # cs) s =
     (case run_cycle c s of Inl err \<Rightarrow> Inl err | Inr s' \<Rightarrow> run cs s')"

subsection \<open>Vocabulary of the statements\<close>

text \<open>
  A \<^verbatim>\<open>Joy\<close> message is large enough for the callback when it has a button 2 and an
  axis 3.
\<close>

definition joy_ok :: "joy \<Rightarrow> bool" where
  "joy_ok m = (2 < length (buttons m) \<and> 3 < length (axes m))"

fun event_ok :: "event \<Rightarrow> bool" where
  "event_ok (JoyMsg m) = joy_ok m"
| "event_ok (AmclPoseMsg p) = True"

text \<open>The message is a \<^verbatim>\<open>Joy\<close> message whose button 2 reads 1.\<close>

fun save_pressed :: "event \<Rightarrow> bool" where
  "save_pressed (JoyMsg m) = (buttons m ! 2 = 1)"
| "save_pressed (AmclPoseMsg p) = False"

fun is_joy :: "event \<Rightarrow> bool" where
  "is_joy (JoyMsg m) = True"
| "is_joy (AmclPoseMsg p) = False"

text \<open>The velocity command that \<^verbatim>\<open>joyCallback\<close> builds from a message.\<close>

definition twist_of :: "joy \<Rightarrow> twist" where
  "twist_of m = \<lparr>linear = \<lparr>vx = axes m ! 3, vy = Fin 0, vz = Fin 0\<rparr>,
                 angular = \<lparr>vx = Fin 0, vy = Fin 0, vz = axes m ! 0\<rparr>\<rparr>"

text \<open>The yaw that \<^verbatim>\<open>saveWaypointToCSV\<close> computes, and the text it writes for a pose.\<close>

definition yaw_of :: "pose \<Rightarrow> double" where
  "yaw_of p = atan2 (dmul (Fin 2) (dmul (qw (orientation p)) (qz (orientation p))))
                (dsub (Fin 1) (dmul (Fin 2) (dmul (qz (orientation p)) (qz (orientation p)))))"

definition csv_record :: "pose \<Rightarrow> string" where
  "csv_record p = fmt_double (px (position p)) @ '','' @ fmt_double (py (position p)) @ '','' @
                  fmt_double (yaw_of p)"

text \<open>The characters that \<^const>\<open>fmt_double\<close> can produce.\<close>

definition out_chars :: "char set" where
  "out_chars = set ''0123456789.-+e''"

text \<open>
  The \<open>i\<close>-th marker published in a run; \<open>None\<close> when the run failed or published
  fewer markers.
\<close>

definition nth_marker :: "error + waypoint_maker \<Rightarrow> nat \<Rightarrow> marker option" where
  "nth_marker r i =
     (case r of
        Inl err \<Rightarrow> None
      | Inr s \<Rightarrow> if i < length (marker_out s) then Some (marker_out s ! i) else None)"

text \<open>An iteration of the loop that receives no pose message.\<close>

definition joy_only :: "cycle \<Rightarrow> bool" where
  "joy_only c = list_all is_joy (pending c)"

text \<open>
  Inputs for the examples: a \<^verbatim>\<open>Joy\<close> message with button 2 down and the sticks at
  rest, one with the button up and the sticks moved, and iterations of the loop that
  receive the first once, the first twice, and the second.
\<close>

definition pressed_joy :: joy where
  "pressed_joy = \<lparr>axes = [Fin 0, Fin 0, Fin 0, Fin 0], buttons = [0, 0, 1]\<rparr>"

definition released_joy :: joy where
  "released_joy = \<lparr>axes = [Fin (1 / 4), Fin 0, Fin 0, Fin (3 / 4)], buttons = [0, 0, 0]\<rparr>"

definition press_cycle :: "bool \<Rightarrow> cycle" where
  "press_cycle ok = \<lparr>pending = [JoyMsg pressed_joy], open_ok = ok, now = (0, 0)\<rparr>"

definition double_press_cycle :: cycle where
  "double_press_cycle =
     \<lparr>pending = [JoyMsg pressed_joy, JoyMsg pressed_joy], open_ok = True, now = (0, 0)\<rparr>"

definition release_cycle :: cycle where
  "release_cycle = \<lparr>pending = [JoyMsg released_joy], open_ok = True, now = (0, 0)\<rparr>"

section \<open>Properties\<close>

subsection \<open>The text of a number\<close>

lemma digit_char_out: "digit_char d \<in> out_chars"
proof -
  have "digit_char d \<in> set ''0123456789''"
    unfolding digit_char_def by (rule nth_mem) simp
  moreover have "set ''0123456789'' \<subseteq> out_chars"
    by (simp add: out_chars_def)
  ultimately show ?thesis by (rule rev_subsetD)
qed

lemma dec_digits_out: "set (dec_digits n m) \<subseteq> out_chars"
  by (induction n arbitrary: m) (simp_all add: digit_char_out)

lemma exp_digits_out: "set (exp_digits n) \<subseteq> out_chars"
  by (cases "n < 100") (simp_all only: exp_digits_def dec_digits_out if_True if_False)

lemma strip_zeros_subset: "set (strip_zeros s) \<subseteq> set s"
  by (auto simp: strip_zeros_def dest: set_dropWhileD)

lemma point_out: "CHR ''.'' \<in> out_chars" and zero_out: "CHR ''0'' \<in> out_chars"
  and minus_out: "CHR ''-'' \<in> out_chars" and plus_out: "CHR ''+'' \<in> out_chars"
  and e_out: "CHR ''e'' \<in> out_chars"
  by (simp_all add: out_chars_def)

lemma fraction_part_out:
  assumes "set f \<subseteq> out_chars"
  shows "set (fraction_part f) \<subseteq> out_chars"
proof -
  from strip_zeros_subset [of f] assms have "set (strip_zeros f) \<subseteq> out_chars"
    by (rule subset_trans)
  then show ?thesis by (simp add: fraction_part_def Let_def point_out)
qed

lemma take_out: "set xs \<subseteq> out_chars \<Longrightarrow> set (take n xs) \<subseteq> out_chars"
  by (rule subset_trans [OF set_take_subset])

lemma drop_out: "set xs \<subseteq> out_chars \<Longrightarrow> set (drop n xs) \<subseteq> out_chars"
  by (rule subset_trans [OF set_drop_subset])

lemma zeros_out: "set (replicate n CHR ''0'') \<subseteq> out_chars"
  using zero_out by (induction n) simp_all

lemma layout_out:
  assumes ds: "set ds \<subseteq> out_chars"
  shows "set (layout ds X) \<subseteq> out_chars"
proof -
  have f1: "set (fraction_part (drop k ds)) \<subseteq> out_chars" for k
    by (rule fraction_part_out [OF drop_out [OF ds]])
  have f2: "set (fraction_part (replicate k CHR ''0'' @ ds)) \<subseteq> out_chars" for k
    by (rule fraction_part_out) (simp only: set_append Un_subset_iff zeros_out ds simp_thms)
  have t: "set (take k ds) \<subseteq> out_chars" for k
    by (rule take_out [OF ds])
  show ?thesis
    unfolding layout_def
    by (simp only: set_append Un_subset_iff f1 f2 t exp_digits_out list.set insert_subset
        empty_subsetI zero_out minus_out plus_out e_out simp_thms if_cancel split: if_split)
qed

lemma fmt_finite_out: "set (fmt_finite v) \<subseteq> out_chars"
proof -
  have l: "set (layout (dec_digits 6 m) X) \<subseteq> out_chars" for m X
    by (rule layout_out [OF dec_digits_out])
  show ?thesis
  proof (cases "v = 0")
    case True
    then show ?thesis by (simp add: fmt_finite_def zero_out)
  next
    case False
    then show ?thesis
      unfolding fmt_finite_def Let_def
      by (cases "v < 0") (simp_all only: if_True if_False set_append Un_subset_iff l list.set
          insert_subset empty_subsetI minus_out simp_thms)
  qed
qed

lemma newline_not_out: "CHR ''\<newline>'' \<notin> out_chars"
  by (simp add: out_chars_def)

lemma fmt_double_out: "set (fmt_double d) \<subseteq> out_chars"
  by (cases d) (simp_all add: fmt_finite_out zero_out minus_out)

lemma fmt_double_no_newline: "CHR ''\<newline>'' \<notin> set (fmt_double d)"
  using fmt_double_out [of d] newline_not_out by blast

lemma csv_record_one_line: "CHR ''\<newline>'' \<notin> set (csv_record p)"
  by (simp add: csv_record_def fmt_double_no_newline)

lemma fmt_finite_0: "fmt_finite 0 = ''0''"
  by (simp add: fmt_finite_def)

text \<open>The values that occur in the examples, evaluated.\<close>

lemma dec_exp_unit: "1 \<le> a \<Longrightarrow> a < 10 \<Longrightarrow> dec_exp (Suc n) a = 0"
  by simp

lemma six: "6 = Suc (Suc (Suc (Suc (Suc (Suc 0)))))"
  by simp

lemma dec_digits_100000: "dec_digits 6 100000 = ''100000''"
  unfolding six by (simp add: digit_char_def)

lemma dec_digits_200000: "dec_digits 6 200000 = ''200000''"
  unfolding six by (simp add: digit_char_def)

lemma layout_single: "layout [d, CHR ''0'', CHR ''0'', CHR ''0'', CHR ''0'', CHR ''0''] 0 = [d]"
  by (simp add: layout_def fraction_part_def strip_zeros_def)

lemma fmt_finite_1: "fmt_finite 1 = ''1''"
proof -
  have e: "dec_exp 400 1 = 0"
    using dec_exp_unit [of 1 399] by simp
  have r: "round_half_even 100000 = 100000"
    by (simp add: round_half_even_def)
  show ?thesis
    by (simp add: fmt_finite_def e scale10_def r dec_digits_100000 layout_single
        del: dec_digits.simps)
qed

lemma fmt_finite_2: "fmt_finite 2 = ''2''"
proof -
  have e: "dec_exp 400 2 = 0"
    using dec_exp_unit [of 2 399] by simp
  have r: "round_half_even 200000 = 200000"
    by (simp add: round_half_even_def)
  show ?thesis
    by (simp add: fmt_finite_def e scale10_def r dec_digits_200000 layout_single
        del: dec_digits.simps)
qed








subsection \<open>The callbacks and \<^verbatim>\<open>spinOnce\<close>\<close>

lemma joyCallback_ok:
  "joy_ok m \<Longrightarrow>
   joyCallback m s =
     Inr (s\<lparr>save_waypoint := save_waypoint s \<or> buttons m ! 2 = 1,
            cmd_vel_out := cmd_vel_out s @ [twist_of m]\<rparr>)"
  by (simp add: joyCallback_def joy_ok_def twist_of_def default_twist_def zero_vector3_def Let_def)

lemma joyCallback_Inr: "joyCallback m s = Inr s' \<Longrightarrow> joy_ok m"
  by (auto simp: joyCallback_def joy_ok_def Let_def split: if_splits)

lemma spinOnce_ok: "list_all event_ok es \<Longrightarrow> \<exists>s'. spinOnce es s = Inr s'"
proof (induction es arbitrary: s)
  case Nil
  then show ?case by simp
next
  case (Cons e es)
  then show ?case by (cases e) (simp_all add: joyCallback_ok)
qed

text \<open>
  What a callback leaves alone: the file, the markers and the counter. The save flag
  is only ever raised.
\<close>

lemma dispatch_frame:
  assumes "dispatch e s = Inr s'"
  shows "csv_file s' = csv_file s \<and> marker_out s' = marker_out s \<and>
         waypoint_id s' = waypoint_id s \<and>
         save_waypoint s' = (save_waypoint s \<or> save_pressed e)"
proof (cases e)
  case (JoyMsg m)
  with assms have "joy_ok m" by (simp add: joyCallback_Inr)
  with assms JoyMsg show ?thesis by (auto simp: joyCallback_ok)
next
  case (AmclPoseMsg p)
  with assms show ?thesis by (auto simp: amclPoseCallback_def Let_def)
qed

lemma spinOnce_frame:
  "spinOnce es s = Inr s' \<Longrightarrow>
     csv_file s' = csv_file s \<and> marker_out s' = marker_out s \<and>
     waypoint_id s' = waypoint_id s \<and>
     save_waypoint s' = (save_waypoint s \<or> list_ex save_pressed es)"
proof (induction es arbitrary: s)
  case Nil
  then show ?case by simp
next
  case (Cons e es)
  from Cons.prems obtain s1 where d: "dispatch e s = Inr s1" and r: "spinOnce es s1 = Inr s'"
    by (auto split: sum.splits)
  from dispatch_frame [OF d] Cons.IH [OF r] show ?case by auto
qed

subsection \<open>The save step\<close>

lemma saveWaypointToCSV_open:
  "saveWaypointToCSV True p s =
     s\<lparr>csv_file := csv_file s @ csv_record p @ ''\<newline>'',
       log_out := log_out s @ [InfoWaypointSaved (px (position p)) (py (position p)) (yaw_of p)]\<rparr>"
  by (simp add: saveWaypointToCSV_def csv_record_def yaw_of_def Let_def)

lemma saveWaypointToCSV_failed:
  "saveWaypointToCSV False p s = s\<lparr>log_out := log_out s @ [ErrorCsvOpenFailed]\<rparr>"
  by (simp add: saveWaypointToCSV_def)

lemma save_if_requested_idle: "\<not> save_waypoint s \<Longrightarrow> save_if_requested c s = s"
  by (simp add: save_if_requested_def)

lemma save_if_requested_fields:
  assumes "save_waypoint s"
  shows "csv_file (save_if_requested c s) =
           csv_file s @ (if open_ok c then csv_record (current_pose s) @ ''\<newline>'' else [])"
    and "marker_out (save_if_requested c s) =
           marker_out s @ [createArrowMarker (now c) (waypoint_id s) (current_pose s)]"
    and "waypoint_id (save_if_requested c s) = waypoint_id s + 1"
    and "\<not> save_waypoint (save_if_requested c s)"
    and "current_pose (save_if_requested c s) = current_pose s"
    and "cmd_vel_out (save_if_requested c s) = cmd_vel_out s"
    and "log_out (save_if_requested c s) =
           log_out s @
             [InfoCurrentPosition (px (position (current_pose s))) (py (position (current_pose s))),
              if open_ok c
              then InfoWaypointSaved (px (position (current_pose s)))
                     (py (position (current_pose s))) (yaw_of (current_pose s))
              else ErrorCsvOpenFailed]"
  using assms
  by (cases "open_ok c";
      simp add: save_if_requested_def Let_def saveWaypointToCSV_open saveWaypointToCSV_failed)+

lemma save_if_requested_clears: "\<not> save_waypoint (save_if_requested c s)"
  by (cases "save_waypoint s") (simp_all add: save_if_requested_fields save_if_requested_idle)

lemma run_cycle_Inr:
  "spinOnce (pending c) s = Inr s1 \<Longrightarrow> run_cycle c s = Inr (save_if_requested c s1)"
  by (simp add: run_cycle_def)

subsection \<open>The examples, evaluated\<close>

lemma spinOnce_press:
  "spinOnce (pending (press_cycle ok)) s =
     Inr (s\<lparr>save_waypoint := True, cmd_vel_out := cmd_vel_out s @ [twist_of pressed_joy]\<rparr>)"
  by (simp add: press_cycle_def joyCallback_ok joy_ok_def pressed_joy_def)

lemma initial_pose:
  "current_pose (WaypointMaker f) =
     \<lparr>position = \<lparr>px = Fin 0, py = Fin 0, pz = Fin 0\<rparr>, orientation = \<lparr>qx = Fin 0, qy = Fin 0, qz = Fin 0, qw = Fin 1\<rparr>\<rparr>"
  by (simp add: WaypointMaker_def default_pose_def zero_point_def zero_quaternion_def)

lemma yaw_of_identity:
  "qz (orientation p) = Fin 0 \<Longrightarrow> qw (orientation p) = Fin 1 \<Longrightarrow> yaw_of p = Fin 0"
  by (simp add: yaw_of_def atan2_def dmul_def dsub_def)

subsection \<open>The save flag and the stored pose\<close>

lemma list_ex_filter: "list_ex P xs \<longleftrightarrow> 0 < length (filter P xs)"
  by (induction xs) simp_all

lemma joyCallback_flag_set:
  "joy_ok m \<Longrightarrow> save_waypoint t \<Longrightarrow>
   joyCallback m t = Inr (t\<lparr>cmd_vel_out := cmd_vel_out t @ [twist_of m]\<rparr>)"
  by (simp add: joyCallback_ok)

lemma dispatch_pose:
  "dispatch e s = Inr s' \<Longrightarrow> is_joy e \<Longrightarrow> current_pose s' = current_pose s"
  by (cases e) (auto simp: joyCallback_def Let_def split: if_splits)

lemma spinOnce_pose:
  "spinOnce es s = Inr s' \<Longrightarrow> list_all is_joy es \<Longrightarrow> current_pose s' = current_pose s"
proof (induction es arbitrary: s)
  case Nil
  then show ?case by simp
next
  case (Cons e es)
  from Cons.prems obtain s1 where d: "dispatch e s = Inr s1" and r: "spinOnce es s1 = Inr s'"
    by (auto split: sum.splits)
  from Cons.prems have "is_joy e" and "list_all is_joy es"
    by simp_all
  with dispatch_pose [OF d] Cons.IH [OF r] show ?case by simp
qed

lemma save_if_requested_pose: "current_pose (save_if_requested c s) = current_pose s"
  by (cases "save_waypoint s") (simp_all add: save_if_requested_fields save_if_requested_idle)

lemma run_cycle_pose:
  assumes "run_cycle c s = Inr s'" and "list_all is_joy (pending c)"
  shows "current_pose s' = current_pose s"
proof -
  from assms(1) obtain s1 where sp: "spinOnce (pending c) s = Inr s1"
    and s': "s' = save_if_requested c s1"
    by (auto simp: run_cycle_def split: sum.splits)
  from spinOnce_pose [OF sp assms(2)] s' show ?thesis
    by (simp add: save_if_requested_pose)
qed

lemma run_pose:
  "run cs s = Inr s' \<Longrightarrow> list_all joy_only cs \<Longrightarrow>
   current_pose s' = current_pose s"
proof (induction cs arbitrary: s)
  case Nil
  then show ?case by simp
next
  case (Cons c cs)
  from Cons.prems obtain s1 where c: "run_cycle c s = Inr s1" and r: "run cs s1 = Inr s'"
    by (auto split: sum.splits)
  from Cons.prems have "joy_only c" and "list_all joy_only cs"
    by simp_all
  then have "list_all is_joy (pending c)" and "list_all joy_only cs"
    by (simp_all only: joy_only_def)
  with run_cycle_pose [OF c] Cons.IH [OF r] show ?case by simp
qed

subsection \<open>The markers of a run\<close>

lemma run_cycle_markers:
  assumes "run_cycle c s = Inr s'"
  shows "(marker_out s' = marker_out s \<and> waypoint_id s' = waypoint_id s) \<or>
         (\<exists>p. marker_out s' = marker_out s @ [createArrowMarker (now c) (waypoint_id s) p] \<and>
              waypoint_id s' = waypoint_id s + 1)"
proof -
  from assms obtain s1 where sp: "spinOnce (pending c) s = Inr s1"
    and s': "s' = save_if_requested c s1"
    by (auto simp: run_cycle_def split: sum.splits)
  from spinOnce_frame [OF sp] have frame: "marker_out s1 = marker_out s" "waypoint_id s1 = waypoint_id s"
    by simp_all
  show ?thesis
  proof (cases "save_waypoint s1")
    case True
    with s' frame show ?thesis
      by (auto simp: save_if_requested_fields)
  next
    case False
    with s' frame show ?thesis
      by (simp add: save_if_requested_idle)
  qed
qed

lemma run_markers:
  "run cs s = Inr s' \<Longrightarrow>
   \<exists>ms. marker_out s' = marker_out s @ ms \<and>
        waypoint_id s' = waypoint_id s + of_nat (length ms) \<and>
        (\<forall>i<length ms. \<exists>t p. ms ! i = createArrowMarker t (waypoint_id s + of_nat i) p)"
proof (induction cs arbitrary: s)
  case Nil
  then show ?case by simp
next
  case (Cons c cs)
  from Cons.prems obtain s1 where c: "run_cycle c s = Inr s1" and r: "run cs s1 = Inr s'"
    by (auto split: sum.splits)
  from Cons.IH [OF r] obtain ms where
    ms: "marker_out s' = marker_out s1 @ ms"
    and w: "waypoint_id s' = waypoint_id s1 + of_nat (length ms)"
    and each: "\<forall>i<length ms. \<exists>t p. ms ! i = createArrowMarker t (waypoint_id s1 + of_nat i) p"
    by blast
  from run_cycle_markers [OF c] show ?case
  proof
    assume "marker_out s1 = marker_out s \<and> waypoint_id s1 = waypoint_id s"
    with ms w each show ?thesis
      by auto
  next
    assume "\<exists>p. marker_out s1 = marker_out s @ [createArrowMarker (now c) (waypoint_id s) p] \<and>
              waypoint_id s1 = waypoint_id s + 1"
    then obtain p where m1: "marker_out s1 = marker_out s @ [createArrowMarker (now c) (waypoint_id s) p]"
      and w1: "waypoint_id s1 = waypoint_id s + 1"
      by blast
    let ?ms = "createArrowMarker (now c) (waypoint_id s) p # ms"
    have a: "marker_out s' = marker_out s @ ?ms"
      using ms m1 by simp
    have b: "waypoint_id s' = waypoint_id s + of_nat (length ?ms)"
      using w w1 by simp
    have "\<exists>t q. ?ms ! i = createArrowMarker t (waypoint_id s + of_nat i) q" if "i < length ?ms" for i
    proof (cases i)
      case 0
      then have "?ms ! i = createArrowMarker (now c) (waypoint_id s + of_nat i) p"
        by simp
      then show ?thesis by blast
    next
      case (Suc k)
      with that have "k < length ms" by simp
      with each obtain t q where "ms ! k = createArrowMarker t (waypoint_id s1 + of_nat k) q"
        by blast
      with Suc w1 have "?ms ! i = createArrowMarker t (waypoint_id s + of_nat i) q"
        by (simp add: ac_simps)
      then show ?thesis by blast
    qed
    with a b show ?thesis
      by blast
  qed
qed

lemma sint_of_nat_small: "n < 2147483648 \<Longrightarrow> sint (of_nat n :: 32 word) = int n"
  by (simp add: signed_of_nat signed_take_bit_int_eq_self)

lemma nth_marker_run:
  assumes "nth_marker (run cs (WaypointMaker file)) j = Some m"
  shows "\<exists>t p. m = createArrowMarker t (of_nat j) p"
proof -
  from assms obtain s' where r: "run cs (WaypointMaker file) = Inr s'"
    and j: "j < length (marker_out s')" and m: "m = marker_out s' ! j"
    by (auto simp: nth_marker_def split: sum.splits if_splits)
  from run_markers [OF r] obtain ms where "marker_out s' = ms"
    and "\<forall>i<length ms. \<exists>t p. ms ! i = createArrowMarker t (of_nat i) p"
    by (auto simp: WaypointMaker_def)
  with j m show ?thesis
    by blast
qed

lemma run_press:
  "\<exists>s'. run (replicate n (press_cycle ok)) s = Inr s' \<and>
        length (marker_out s') = length (marker_out s) + n"
proof (induction n arbitrary: s)
  case 0
  then show ?case by simp
next
  case (Suc n)
  let ?s1 = "save_if_requested (press_cycle ok)
      (s\<lparr>save_waypoint := True, cmd_vel_out := cmd_vel_out s @ [twist_of pressed_joy]\<rparr>)"
  have step: "run_cycle (press_cycle ok) s = Inr ?s1"
    by (simp add: run_cycle_def spinOnce_press)
  have len: "length (marker_out ?s1) = length (marker_out s) + 1"
    by (simp add: save_if_requested_fields)
  from Suc [of ?s1] len step show ?case
    by auto
qed

lemma nth_marker_press:
  assumes "i < n"
  shows "map_option marker_id (nth_marker (run (replicate n (press_cycle ok)) (WaypointMaker f)) i) =
           Some (of_nat i)"
proof -
  from run_press [of n ok "WaypointMaker f"] obtain s'
    where r: "run (replicate n (press_cycle ok)) (WaypointMaker f) = Inr s'"
      and l: "length (marker_out s') = n"
    by (auto simp: WaypointMaker_def)
  with assms have "nth_marker (run (replicate n (press_cycle ok)) (WaypointMaker f)) i =
      Some (marker_out s' ! i)"
    by (simp add: nth_marker_def)
  moreover from nth_marker_run [OF this] have "marker_id (marker_out s' ! i) = of_nat i"
    by (auto simp: createArrowMarker_def)
  ultimately show ?thesis
    by simp
qed

subsection \<open>The yaw of a planar rotation\<close>

text \<open>
  What \<^const>\<open>atan2\<close> returns, said without its definition: an angle between \<open>-\<pi>\<close> and
  \<open>\<pi>\<close> whose cosine and sine, scaled by the distance of the point from the origin,
  are the point's coordinates. For the quaternion of a rotation by \<open>t\<close> about the
  vertical axis, \<open>(0, 0, sin (t / 2), cos (t / 2))\<close>, the yaw computed on line 100
  is \<open>t\<close>.
\<close>

lemma cos_pos_range:
  assumes "- pi < t" "t \<le> pi" "0 < cos t"
  shows "- (pi / 2) < t \<and> t < pi / 2"
proof -
  have upper: "cos u \<le> 0" if "pi / 2 \<le> u" "u \<le> pi" for u :: real
    using cos_monotone_0_pi_le [of "pi / 2" u] that by simp
  have "t < pi / 2"
    using upper [of t] assms by (cases "t < pi / 2") simp_all
  moreover have "- (pi / 2) < t"
    using upper [of "- t"] assms by (cases "- (pi / 2) < t") simp_all
  ultimately show ?thesis by simp
qed

lemma cos_neg_upper:
  assumes "- pi < t" "t \<le> pi" "cos t < 0" "0 \<le> sin t"
  shows "pi / 2 < t"
proof (rule ccontr)
  assume "\<not> pi / 2 < t"
  then have le: "t \<le> pi / 2" by simp
  show False
  proof (cases "- (pi / 2) \<le> t")
    case True
    from True le have "0 \<le> cos t" by (rule cos_ge_zero)
    with assms(3) show False by simp
  next
    case False
    with assms(1) have "0 < - t" "- t < pi"
      using pi_gt_zero by linarith+
    then have "0 < sin (- t)"
      by (rule sin_gt_zero)
    with assms(4) show False by simp
  qed
qed

lemma cos_neg_lower:
  assumes "- pi < t" "t \<le> pi" "cos t < 0" "sin t < 0"
  shows "t < - (pi / 2)"
proof (rule ccontr)
  assume "\<not> t < - (pi / 2)"
  then have ge: "- (pi / 2) \<le> t" by simp
  show False
  proof (cases "t \<le> pi / 2")
    case True
    from ge True have "0 \<le> cos t" by (rule cos_ge_zero)
    with assms(3) show False by simp
  next
    case False
    with assms(2) have "0 \<le> t" "t \<le> pi"
      using pi_gt_zero by linarith+
    then have "0 \<le> sin t"
      by (rule sin_ge_zero)
    with assms(4) show False by simp
  qed
qed

lemma cos_zero_range:
  assumes "- pi < t" "t \<le> pi" "cos t = 0"
  shows "t = pi / 2 \<or> t = - (pi / 2)"
proof (cases "0 \<le> t")
  case True
  with assms have "t = pi / 2"
    using cos_inj_pi [of t "pi / 2"] by simp
  then show ?thesis by simp
next
  case False
  with assms have "- t = pi / 2"
    using cos_inj_pi [of "- t" "pi / 2"] by simp
  then show ?thesis by simp
qed

lemma polar_angle_polar:
  assumes r: "0 < r" and t: "- pi < t" "t \<le> pi"
  shows "polar_angle (r * sin t) (r * cos t) = t"
proof -
  have q: "r * sin t / (r * cos t) = tan t"
    using r by (simp add: tan_def)
  consider "0 < cos t" | "cos t < 0" "0 \<le> sin t" | "cos t < 0" "sin t < 0" | "cos t = 0"
    by linarith
  then show ?thesis
  proof cases
    case 1
    with r have x: "0 < r * cos t"
      by simp
    from 1 cos_pos_range [OF t] have "arctan (tan t) = t"
      by (simp add: arctan_tan)
    with x show ?thesis
      by (simp only: polar_angle_def q if_True)
  next
    case 2
    with r have x: "\<not> 0 < r * cos t" "r * cos t < 0" and y: "0 \<le> r * sin t"
      by (simp_all add: mult_less_0_iff zero_less_mult_iff)
    from cos_neg_upper [OF t 2] t have "arctan (tan (t - pi)) = t - pi"
      by (intro arctan_tan) simp_all
    then have a: "arctan (tan t) = t - pi"
      by (simp add: tan_periodic_pi [symmetric, of "t - pi"])
    from x y have "polar_angle (r * sin t) (r * cos t) = arctan (tan t) + pi"
      by (simp only: polar_angle_def q if_True if_False)
    with a show ?thesis
      by simp
  next
    case 3
    with r have x: "\<not> 0 < r * cos t" "r * cos t < 0" and y: "\<not> 0 \<le> r * sin t"
      by (simp_all add: mult_less_0_iff zero_less_mult_iff zero_le_mult_iff)
    from cos_neg_lower [OF t 3] t have "arctan (tan (t + pi)) = t + pi"
      by (intro arctan_tan) simp_all
    then have a: "arctan (tan t) = t + pi"
      by simp
    from x y have "polar_angle (r * sin t) (r * cos t) = arctan (tan t) - pi"
      by (simp only: polar_angle_def q if_True if_False)
    with a show ?thesis
      by simp
  next
    case 4
    from cos_zero_range [OF t 4] show ?thesis
    proof
      assume e: "t = pi / 2"
      show ?thesis
        unfolding e using r by (simp add: polar_angle_def)
    next
      assume e: "t = - (pi / 2)"
      show ?thesis
        unfolding e using r by (simp add: polar_angle_def)
    qed
  qed
qed



lemma dval_dmul: "dval (dmul a b) = dval a * dval b"
  by (simp add: dmul_def)

lemma dval_dsub: "dval (dsub a b) = dval a - dval b"
  by (simp add: dsub_def)



lemma sin_zero_range:
  assumes "- pi < t" "t \<le> pi" "sin t = 0"
  shows "t = 0 \<or> t = pi"
proof (rule ccontr)
  assume n: "\<not> (t = 0 \<or> t = pi)"
  show False
  proof (cases "0 < t")
    case True
    with n assms(2) have "0 < sin t"
      by (intro sin_gt_zero) simp_all
    with assms(3) show False by simp
  next
    case False
    with n assms(1) have "0 < - t" "- t < pi"
      by simp_all
    then have "0 < sin (- t)"
      by (rule sin_gt_zero)
    with assms(3) show False by simp
  qed
qed

lemma yaw_of_planar_rotation:
  assumes t: "- pi < t" "t \<le> pi"
    and z: "qz (orientation p) = Fin (sin (t / 2))" and w: "qw (orientation p) = Fin (cos (t / 2))"
  shows "yaw_of p = Fin t"
proof -
  let ?Y = "dmul (Fin 2) (dmul (Fin (cos (t / 2))) (Fin (sin (t / 2))))"
  let ?X = "dsub (Fin 1) (dmul (Fin 2) (dmul (Fin (sin (t / 2))) (Fin (sin (t / 2)))))"
  have s: "dval ?Y = sin t"
    using sin_double [of "t / 2"] by (simp add: dval_dmul)
  have c: "dval ?X = cos t"
    using cos_double_sin [of "t / 2"] by (simp add: dval_dmul dval_dsub power2_eq_square)
  have y: "yaw_of p = atan2 ?Y ?X"
    by (simp add: yaw_of_def z w)
  show ?thesis
  proof (cases "sin t = 0")
    case False
    with s c have "atan2 ?Y ?X = Fin (polar_angle (sin t) (cos t))"
      by (simp add: atan2_def)
    also from polar_angle_polar [of 1 t] t have "polar_angle (sin t) (cos t) = t"
      by simp
    finally show ?thesis
      by (simp only: y)
  next
    case True
    from sin_zero_range [OF t True] show ?thesis
    proof
      assume e: "t = 0"
      show ?thesis
        unfolding y e by (simp add: atan2_def dmul_def dsub_def)
    next
      assume e: "t = pi"
      show ?thesis
        unfolding y e by (simp add: atan2_def dmul_def dsub_def)
    qed
  qed
qed

subsection \<open>Velocity commands\<close>

text \<open>
  C3: for every \<^verbatim>\<open>Joy\<close> message (one that has the button 2 and the axis 3 the callback
  reads) and in every state of the node, whatever the save flag and whatever button 2
  reads, \<^verbatim>\<open>joyCallback\<close> returns normally and has published exactly one more velocity
  command, whose \<^verbatim>\<open>linear.x\<close> is \<^verbatim>\<open>axes[3]\<close>, whose \<^verbatim>\<open>angular.z\<close> is \<^verbatim>\<open>axes[0]\<close>
  and whose other components are zero: the axis values pass through unchanged.
\<close>

theorem C3_velocity_passthrough:
  assumes "2 < length (buttons m)" and "3 < length (axes m)"
  shows "map_sum id cmd_vel_out (joyCallback m s) =
           Inr (cmd_vel_out s @
                  [\<lparr>linear = \<lparr>vx = axes m ! 3, vy = Fin 0, vz = Fin 0\<rparr>,
                    angular = \<lparr>vx = Fin 0, vy = Fin 0, vz = axes m ! 0\<rparr>\<rparr>])"
  using assms by (simp add: joyCallback_ok joy_ok_def twist_of_def)

theorem C3_velocity_passthrough_witness:
  "2 < length (buttons \<lparr>axes = [Fin (1 / 4), Fin 0, Fin 0, Fin (3 / 4)], buttons = [0, 0, 1]\<rparr>) \<and>
   3 < length (axes \<lparr>axes = [Fin (1 / 4), Fin 0, Fin 0, Fin (3 / 4)], buttons = [0, 0, 1]\<rparr>) \<and>
   map_sum id cmd_vel_out
     (joyCallback \<lparr>axes = [Fin (1 / 4), Fin 0, Fin 0, Fin (3 / 4)], buttons = [0, 0, 1]\<rparr> (WaypointMaker [])) =
     Inr [\<lparr>linear = \<lparr>vx = Fin (3 / 4), vy = Fin 0, vz = Fin 0\<rparr>, angular = \<lparr>vx = Fin 0, vy = Fin 0, vz = Fin (1 / 4)\<rparr>\<rparr>]"
  using C3_velocity_passthrough
    [of "\<lparr>axes = [Fin (1 / 4), Fin 0, Fin 0, Fin (3 / 4)], buttons = [0, 0, 1]\<rparr>" "WaypointMaker []"]
  by (simp add: WaypointMaker_def)

subsection \<open>Saving a waypoint\<close>

text \<open>
  C1, as the claim states it: in every iteration of the loop that finds the save flag
  set, one line is appended to the CSV file. It fails when the file cannot be opened:
  after a \<^verbatim>\<open>Joy\<close> message with button 2 down the flag is set, and the iteration leaves
  the (empty) file empty.
\<close>

theorem C1_open_failure_counterexample:
  "map_sum id save_waypoint (spinOnce (pending (press_cycle False)) (WaypointMaker [])) = Inr True \<and>
   map_sum id csv_file (run_cycle (press_cycle False) (WaypointMaker [])) = Inr []"
  by (simp add: press_cycle_def pressed_joy_def run_cycle_def joyCallback_def WaypointMaker_def
      save_if_requested_def saveWaypointToCSV_def Let_def)

text \<open>
  C1, amended: in every iteration of the loop in which the save flag is set after
  \<^verbatim>\<open>spinOnce\<close>, the iteration returns normally and \<^verbatim>\<open>waypoint_id_\<close> is one more than
  before (on 32 bits). When the CSV file opens, the file grows by the text \<open>x,y,yaw\<close>
  of the current pose followed by a newline, and that text holds no other newline: it
  is exactly one line. When the file does not open, it is left as it was.
\<close>

theorem C1_save_appends_one_line:
  assumes "spinOnce (pending c) s = Inr s1" and "save_waypoint s1"
  shows "run_cycle c s = Inr (save_if_requested c s1) \<and>
         waypoint_id (save_if_requested c s1) = waypoint_id s + 1 \<and>
         (if open_ok c then
            csv_file (save_if_requested c s1) =
              csv_file s @ fmt_double (px (position (current_pose s1))) @ '','' @
                fmt_double (py (position (current_pose s1))) @ '','' @
                fmt_double
                  (atan2 (dmul (Fin 2) (dmul (qw (orientation (current_pose s1)))
                                          (qz (orientation (current_pose s1)))))
                     (dsub (Fin 1) (dmul (Fin 2) (dmul (qz (orientation (current_pose s1)))
                                                   (qz (orientation (current_pose s1))))))) @
                ''\<newline>'' \<and>
            CHR ''\<newline>'' \<notin> set (fmt_double (px (position (current_pose s1))) @ '','' @
                fmt_double (py (position (current_pose s1))) @ '','' @
                fmt_double
                  (atan2 (dmul (Fin 2) (dmul (qw (orientation (current_pose s1)))
                                          (qz (orientation (current_pose s1)))))
                     (dsub (Fin 1) (dmul (Fin 2) (dmul (qz (orientation (current_pose s1)))
                                                   (qz (orientation (current_pose s1))))))))
          else csv_file (save_if_requested c s1) = csv_file s)"
proof -
  from assms(1) have frame: "csv_file s1 = csv_file s" "waypoint_id s1 = waypoint_id s"
    by (simp_all add: spinOnce_frame)
  have line: "CHR ''\<newline>'' \<notin> set (csv_record (current_pose s1))"
    by (rule csv_record_one_line)
  from assms frame line show ?thesis
    by (simp add: run_cycle_Inr save_if_requested_fields csv_record_def yaw_of_def)
qed

theorem C1_save_appends_one_line_witness:
  "spinOnce (pending (press_cycle True)) (WaypointMaker []) =
     Inr ((WaypointMaker [])\<lparr>save_waypoint := True, cmd_vel_out := [twist_of pressed_joy]\<rparr>) \<and>
   save_waypoint ((WaypointMaker [])\<lparr>save_waypoint := True, cmd_vel_out := [twist_of pressed_joy]\<rparr>) \<and>
   open_ok (press_cycle True) \<and>
   map_sum id csv_file (run_cycle (press_cycle True) (WaypointMaker [])) = Inr ''0,0,0\<newline>'' \<and>
   map_sum id waypoint_id (run_cycle (press_cycle True) (WaypointMaker [])) = Inr 1"
proof -
  let ?s1 = "(WaypointMaker [])\<lparr>save_waypoint := True, cmd_vel_out := [twist_of pressed_joy]\<rparr>"
  have h1: "spinOnce (pending (press_cycle True)) (WaypointMaker []) = Inr ?s1"
    by (simp add: spinOnce_press) (simp add: WaypointMaker_def)
  have h2: "save_waypoint ?s1"
    by simp
  have h3: "open_ok (press_cycle True)"
    by (simp add: press_cycle_def)
  have p: "current_pose ?s1 = current_pose (WaypointMaker [])"
    by simp
  from C1_save_appends_one_line [OF h1 h2] h1 h2 h3 show ?thesis
    by (simp add: p initial_pose atan2_def dmul_def dsub_def fmt_finite_0)
      (simp add: WaypointMaker_def)
qed



text \<open>
  Another pose where the sign of a zero shows in the file: for the quaternion
  \<open>z = 0\<close>, \<open>w = -1\<close> the yaw is the negative zero.
\<close>

lemma negative_zero_yaw:
  "csv_file (saveWaypointToCSV True
      \<lparr>position = \<lparr>px = Fin 1, py = Fin 2, pz = Fin 0\<rparr>,
       orientation = \<lparr>qx = Fin 0, qy = Fin 0, qz = Fin 0, qw = Fin (- 1)\<rparr>\<rparr> (WaypointMaker [])) =
     ''1,2,-0\<newline>''"
  by (simp add: saveWaypointToCSV_def Let_def atan2_def dmul_def dsub_def WaypointMaker_def
      fmt_finite_1 fmt_finite_2)

text \<open>
  C4: when the save flag is set and the CSV file cannot be opened, the iteration
  returns normally, the file is unchanged, the error is logged, the flag is cleared
  in that iteration, and the loop goes on with the remaining iterations.
\<close>

theorem C4_open_failure_is_dropped:
  assumes "spinOnce (pending c) s = Inr s1" and "save_waypoint s1" and "\<not> open_ok c"
  shows "run_cycle c s = Inr (save_if_requested c s1) \<and>
         csv_file (save_if_requested c s1) = csv_file s \<and>
         log_out (save_if_requested c s1) =
           log_out s1 @ [InfoCurrentPosition (px (position (current_pose s1)))
                           (py (position (current_pose s1))), ErrorCsvOpenFailed] \<and>
         \<not> save_waypoint (save_if_requested c s1) \<and>
         run (c # cs) s = run cs (save_if_requested c s1)"
proof -
  from assms(1) have "csv_file s1 = csv_file s"
    by (simp add: spinOnce_frame)
  with assms show ?thesis
    by (simp add: run_cycle_Inr save_if_requested_fields)
qed

theorem C4_open_failure_is_dropped_witness:
  "spinOnce (pending (press_cycle False)) (WaypointMaker ''7,8,9\<newline>'') =
     Inr ((WaypointMaker ''7,8,9\<newline>'')\<lparr>save_waypoint := True, cmd_vel_out := [twist_of pressed_joy]\<rparr>) \<and>
   save_waypoint ((WaypointMaker ''7,8,9\<newline>'')\<lparr>save_waypoint := True, cmd_vel_out := [twist_of pressed_joy]\<rparr>) \<and>
   \<not> open_ok (press_cycle False) \<and>
   map_sum id csv_file (run [press_cycle False] (WaypointMaker ''7,8,9\<newline>'')) = Inr ''7,8,9\<newline>'' \<and>
   map_sum id log_out (run [press_cycle False] (WaypointMaker ''7,8,9\<newline>'')) =
     Inr [InfoCurrentPosition (Fin 0) (Fin 0), ErrorCsvOpenFailed] \<and>
   map_sum id save_waypoint (run [press_cycle False] (WaypointMaker ''7,8,9\<newline>'')) = Inr False"
proof -
  let ?s0 = "WaypointMaker ''7,8,9\<newline>''"
  let ?s1 = "?s0\<lparr>save_waypoint := True, cmd_vel_out := [twist_of pressed_joy]\<rparr>"
  have h1: "spinOnce (pending (press_cycle False)) ?s0 = Inr ?s1"
    by (simp add: spinOnce_press) (simp add: WaypointMaker_def)
  have h2: "save_waypoint ?s1"
    by simp
  have h3: "\<not> open_ok (press_cycle False)"
    by (simp add: press_cycle_def)
  have p: "current_pose ?s1 = current_pose ?s0"
    by simp
  from C4_open_failure_is_dropped [OF h1 h2 h3, of "[]"] h1 h2 h3
  show ?thesis
    by (simp add: p initial_pose) (simp add: WaypointMaker_def)
qed

text \<open>
  C5: on every save event the marker is published and the id counter is incremented,
  whether the file opened (\<open>b\<close> true) or not (\<open>b\<close> false).
\<close>

theorem C5_marker_regardless_of_write:
  assumes "save_waypoint s"
  shows "marker_out (save_if_requested (c\<lparr>open_ok := b\<rparr>) s) =
           marker_out s @ [createArrowMarker (now c) (waypoint_id s) (current_pose s)] \<and>
         waypoint_id (save_if_requested (c\<lparr>open_ok := b\<rparr>) s) = waypoint_id s + 1"
  using assms by (simp add: save_if_requested_fields)

theorem C5_marker_regardless_of_write_witness:
  "save_waypoint ((WaypointMaker [])\<lparr>save_waypoint := True\<rparr>) \<and>
   map marker_id (marker_out (save_if_requested (press_cycle False)
      ((WaypointMaker [])\<lparr>save_waypoint := True\<rparr>))) = [0] \<and>
   waypoint_id (save_if_requested (press_cycle False) ((WaypointMaker [])\<lparr>save_waypoint := True\<rparr>)) = 1 \<and>
   csv_file (save_if_requested (press_cycle False) ((WaypointMaker [])\<lparr>save_waypoint := True\<rparr>)) = []"
proof -
  let ?s = "(WaypointMaker [])\<lparr>save_waypoint := True\<rparr>"
  have h: "save_waypoint ?s"
    by simp
  have c: "(press_cycle True)\<lparr>open_ok := False\<rparr> = press_cycle False"
    by (simp add: press_cycle_def)
  from C5_marker_regardless_of_write [where c = "press_cycle True" and b = False, OF h] h show ?thesis
    by (simp add: c save_if_requested_fields createArrowMarker_def)
      (simp add: WaypointMaker_def press_cycle_def)
qed

text \<open>
  C8, as the claim states it: saving the pose \<open>x = 1\<close>, \<open>y = 2\<close>, \<open>z = 0\<close>, \<open>w = 1\<close>
  appends the line \<^verbatim>\<open>1.000000,2.000000,0.000000\<close>. It does not: the stream has its
  default format, which drops trailing zeros, and six decimals appear only in the
  log message.
\<close>

theorem C8_six_decimals_counterexample:
  "csv_file (saveWaypointToCSV True
      \<lparr>position = \<lparr>px = Fin 1, py = Fin 2, pz = Fin 0\<rparr>, orientation = \<lparr>qx = Fin 0, qy = Fin 0, qz = Fin 0, qw = Fin 1\<rparr>\<rparr>
      (WaypointMaker [])) \<noteq> ''1.000000,2.000000,0.000000\<newline>''"
  by (simp add: saveWaypointToCSV_def Let_def atan2_def dmul_def dsub_def WaypointMaker_def
      fmt_finite_0 fmt_finite_1 fmt_finite_2)

text \<open>
  C8, amended: saving a pose with \<open>x = 1\<close>, \<open>y = 2\<close> and orientation \<open>z = 0\<close>,
  \<open>w = 1\<close> yields yaw 0 and appends exactly the line \<^verbatim>\<open>1,2,0\<close>, comma-separated and
  newline-terminated.
\<close>

theorem C8_example_line:
  assumes "px (position p) = Fin 1" and "py (position p) = Fin 2"
    and "qz (orientation p) = Fin 0" and "qw (orientation p) = Fin 1"
  shows "saveWaypointToCSV True p s =
           s\<lparr>csv_file := csv_file s @ ''1,2,0\<newline>'',
             log_out := log_out s @ [InfoWaypointSaved (Fin 1) (Fin 2) (Fin 0)]\<rparr>"
  using assms
  by (simp add: saveWaypointToCSV_def Let_def atan2_def dmul_def dsub_def fmt_finite_0
      fmt_finite_1 fmt_finite_2)

theorem C8_example_line_witness:
  "px (position \<lparr>position = \<lparr>px = Fin 1, py = Fin 2, pz = Fin 0\<rparr>,
                  orientation = \<lparr>qx = Fin 0, qy = Fin 0, qz = Fin 0, qw = Fin 1\<rparr>\<rparr>) = Fin 1 \<and>
   py (position \<lparr>position = \<lparr>px = Fin 1, py = Fin 2, pz = Fin 0\<rparr>,
                  orientation = \<lparr>qx = Fin 0, qy = Fin 0, qz = Fin 0, qw = Fin 1\<rparr>\<rparr>) = Fin 2 \<and>
   qz (orientation \<lparr>position = \<lparr>px = Fin 1, py = Fin 2, pz = Fin 0\<rparr>,
                     orientation = \<lparr>qx = Fin 0, qy = Fin 0, qz = Fin 0, qw = Fin 1\<rparr>\<rparr>) = Fin 0 \<and>
   qw (orientation \<lparr>position = \<lparr>px = Fin 1, py = Fin 2, pz = Fin 0\<rparr>,
                     orientation = \<lparr>qx = Fin 0, qy = Fin 0, qz = Fin 0, qw = Fin 1\<rparr>\<rparr>) = Fin 1 \<and>
   csv_file (saveWaypointToCSV True
               \<lparr>position = \<lparr>px = Fin 1, py = Fin 2, pz = Fin 0\<rparr>,
                orientation = \<lparr>qx = Fin 0, qy = Fin 0, qz = Fin 0, qw = Fin 1\<rparr>\<rparr>
               (WaypointMaker ''7,8,9\<newline>'')) = ''7,8,9\<newline>1,2,0\<newline>'' \<and>
   log_out (saveWaypointToCSV True
               \<lparr>position = \<lparr>px = Fin 1, py = Fin 2, pz = Fin 0\<rparr>,
                orientation = \<lparr>qx = Fin 0, qy = Fin 0, qz = Fin 0, qw = Fin 1\<rparr>\<rparr>
               (WaypointMaker ''7,8,9\<newline>'')) = [InfoWaypointSaved (Fin 1) (Fin 2) (Fin 0)]"
  using C8_example_line
    [of "\<lparr>position = \<lparr>px = Fin 1, py = Fin 2, pz = Fin 0\<rparr>, orientation = \<lparr>qx = Fin 0, qy = Fin 0, qz = Fin 0, qw = Fin 1\<rparr>\<rparr>"
        "WaypointMaker ''7,8,9\<newline>''"]
  by (simp add: WaypointMaker_def)

subsection \<open>One save for each iteration\<close>

text \<open>
  C6: when two or more of the \<^verbatim>\<open>Joy\<close> messages taken in one iteration have button 2
  down (all messages being large enough), the iteration returns normally and performs
  one save, not one for each: one marker is published, the counter goes up by one,
  at most one line is appended and the flag is clear afterwards. A \<^verbatim>\<open>Joy\<close> message
  that arrives while the flag is already set changes nothing but the list of
  published velocity commands.
\<close>

theorem C6_one_save_per_cycle:
  assumes "list_all event_ok (pending c)" and "2 \<le> length (filter save_pressed (pending c))"
  shows "(\<exists>s'. run_cycle c s = Inr s' \<and>
            length (marker_out s') = length (marker_out s) + 1 \<and>
            waypoint_id s' = waypoint_id s + 1 \<and>
            csv_file s' =
              csv_file s @ (if open_ok c then csv_record (current_pose s') @ ''\<newline>'' else []) \<and>
            \<not> save_waypoint s') \<and>
         (joy_ok m \<and> save_waypoint t \<longrightarrow>
            joyCallback m t = Inr (t\<lparr>cmd_vel_out := cmd_vel_out t @ [twist_of m]\<rparr>))"
proof -
  from spinOnce_ok [OF assms(1)] obtain s1 where sp: "spinOnce (pending c) s = Inr s1"
    by blast
  from assms(2) have "0 < length (filter save_pressed (pending c))"
    by linarith
  then have "list_ex save_pressed (pending c)"
    by (simp only: list_ex_filter)
  with spinOnce_frame [OF sp] have flag: "save_waypoint s1"
    and frame: "csv_file s1 = csv_file s" "marker_out s1 = marker_out s" "waypoint_id s1 = waypoint_id s"
    by simp_all
  from flag frame have "run_cycle c s = Inr (save_if_requested c s1) \<and>
      length (marker_out (save_if_requested c s1)) = length (marker_out s) + 1 \<and>
      waypoint_id (save_if_requested c s1) = waypoint_id s + 1 \<and>
      csv_file (save_if_requested c s1) =
        csv_file s @ (if open_ok c then csv_record (current_pose (save_if_requested c s1)) @ ''\<newline>''
                      else []) \<and>
      \<not> save_waypoint (save_if_requested c s1)"
    by (simp add: run_cycle_Inr [OF sp] save_if_requested_fields)
  then show ?thesis
    by (auto simp: joyCallback_flag_set)
qed

theorem C6_one_save_per_cycle_witness:
  "list_all event_ok (pending double_press_cycle) \<and>
   2 \<le> length (filter save_pressed (pending double_press_cycle)) \<and>
   (\<exists>s'. run_cycle double_press_cycle (WaypointMaker []) = Inr s' \<and>
      length (marker_out s') = 1 \<and> waypoint_id s' = 1 \<and> csv_file s' = ''0,0,0\<newline>'' \<and>
      \<not> save_waypoint s') \<and>
   joy_ok pressed_joy \<and> save_waypoint ((WaypointMaker [])\<lparr>save_waypoint := True\<rparr>) \<and>
   joyCallback pressed_joy ((WaypointMaker [])\<lparr>save_waypoint := True\<rparr>) =
     Inr ((WaypointMaker [])\<lparr>save_waypoint := True, cmd_vel_out := [twist_of pressed_joy]\<rparr>)"
proof -
  have h1: "list_all event_ok (pending double_press_cycle)"
    by (simp add: double_press_cycle_def joy_ok_def pressed_joy_def)
  have h2: "2 \<le> length (filter save_pressed (pending double_press_cycle))"
    by (simp add: double_press_cycle_def pressed_joy_def)
  have h3: "joy_ok pressed_joy"
    by (simp add: joy_ok_def pressed_joy_def)
  have j: "list_all is_joy (pending double_press_cycle)"
    by (simp add: double_press_cycle_def)
  have o: "open_ok double_press_cycle"
    by (simp add: double_press_cycle_def)
  from C6_one_save_per_cycle [OF h1 h2, of "WaypointMaker []" pressed_joy
      "(WaypointMaker [])\<lparr>save_waypoint := True\<rparr>"]
  obtain s' where r: "run_cycle double_press_cycle (WaypointMaker []) = Inr s'"
    and m: "length (marker_out s') = length (marker_out (WaypointMaker [])) + 1"
    and w: "waypoint_id s' = waypoint_id (WaypointMaker []) + 1"
    and f: "csv_file s' = csv_file (WaypointMaker []) @
          (if open_ok double_press_cycle then csv_record (current_pose s') @ ''\<newline>'' else [])"
    and c: "\<not> save_waypoint s'"
    and n: "joy_ok pressed_joy \<and> save_waypoint ((WaypointMaker [])\<lparr>save_waypoint := True\<rparr>) \<longrightarrow>
        joyCallback pressed_joy ((WaypointMaker [])\<lparr>save_waypoint := True\<rparr>) =
          Inr ((WaypointMaker [])\<lparr>save_waypoint := True\<rparr>
                 \<lparr>cmd_vel_out := cmd_vel_out ((WaypointMaker [])\<lparr>save_waypoint := True\<rparr>) @
                    [twist_of pressed_joy]\<rparr>)"
    by blast
  from run_cycle_pose [OF r j] have p: "current_pose s' = current_pose (WaypointMaker [])" .
  have init: "marker_out (WaypointMaker []) = []" "waypoint_id (WaypointMaker []) = 0"
    "csv_file (WaypointMaker []) = []" "cmd_vel_out (WaypointMaker []) = []"
    by (simp_all add: WaypointMaker_def)
  from f o have f': "csv_file s' = ''0,0,0\<newline>''"
    by (simp add: p init csv_record_def initial_pose yaw_of_identity fmt_finite_0)
  from m w have "length (marker_out s') = 1" "waypoint_id s' = 1"
    by (simp_all add: init)
  with r f' c have ex: "\<exists>s'. run_cycle double_press_cycle (WaypointMaker []) = Inr s' \<and>
      length (marker_out s') = 1 \<and> waypoint_id s' = 1 \<and> csv_file s' = ''0,0,0\<newline>'' \<and>
      \<not> save_waypoint s'"
    by blast
  from n h3 have "joyCallback pressed_joy ((WaypointMaker [])\<lparr>save_waypoint := True\<rparr>) =
     Inr ((WaypointMaker [])\<lparr>save_waypoint := True, cmd_vel_out := [twist_of pressed_joy]\<rparr>)"
    by (simp add: init)
  with h1 h2 h3 ex show ?thesis
    by simp
qed

text \<open>
  C7, as the claim states it: a save happens only when button 2 goes from not pressed
  to pressed, and not again while it is held. It fails when the button is held over
  two iterations and a \<^verbatim>\<open>Joy\<close> message arrives in each: every message taken has the
  button down, there is no transition between the first and the second, and two lines
  are appended.
\<close>

theorem C7_held_button_counterexample:
  "list_all save_pressed (pending (press_cycle True)) \<and>
   map_sum id csv_file (run [press_cycle True, press_cycle True] (WaypointMaker [])) =
     Inr ''0,0,0\<newline>0,0,0\<newline>''"
proof -
  have step: "run_cycle (press_cycle True) s =
      Inr (save_if_requested (press_cycle True)
             (s\<lparr>save_waypoint := True, cmd_vel_out := cmd_vel_out s @ [twist_of pressed_joy]\<rparr>))" for s
    by (simp add: run_cycle_def spinOnce_press)
  have o: "open_ok (press_cycle True)"
    by (simp add: press_cycle_def)
  show ?thesis
    by (simp add: step save_if_requested_fields o csv_record_def initial_pose yaw_of_identity
        fmt_finite_0)
      (simp add: press_cycle_def pressed_joy_def WaypointMaker_def)
qed

text \<open>
  C7, amended: starting an iteration with the flag clear (as it is initially and after
  every iteration), a save is performed in that iteration exactly when one of the
  \<^verbatim>\<open>Joy\<close> messages taken in it has button 2 down. The condition is the level of the
  button in a message, not a transition: a button held down saves once in every
  iteration in which a message arrives.
\<close>

theorem C7_save_iff_pressed_message:
  assumes "\<not> save_waypoint s" and "list_all event_ok (pending c)"
  shows "\<exists>s'. run_cycle c s = Inr s' \<and> \<not> save_waypoint s' \<and>
           (if list_ex save_pressed (pending c)
            then length (marker_out s') = length (marker_out s) + 1 \<and>
                 waypoint_id s' = waypoint_id s + 1 \<and>
                 csv_file s' =
                   csv_file s @ (if open_ok c then csv_record (current_pose s') @ ''\<newline>'' else [])
            else marker_out s' = marker_out s \<and> waypoint_id s' = waypoint_id s \<and>
                 csv_file s' = csv_file s)"
proof -
  from spinOnce_ok [OF assms(2)] obtain s1 where sp: "spinOnce (pending c) s = Inr s1"
    by blast
  from spinOnce_frame [OF sp] assms(1) have flag: "save_waypoint s1 = list_ex save_pressed (pending c)"
    and frame: "csv_file s1 = csv_file s" "marker_out s1 = marker_out s" "waypoint_id s1 = waypoint_id s"
    by simp_all
  show ?thesis
  proof (cases "list_ex save_pressed (pending c)")
    case True
    with flag frame show ?thesis
      by (simp add: run_cycle_Inr [OF sp] save_if_requested_fields)
  next
    case False
    with flag frame show ?thesis
      by (simp add: run_cycle_Inr [OF sp] save_if_requested_idle)
  qed
qed

theorem C7_save_iff_pressed_message_witness:
  "\<not> save_waypoint (WaypointMaker []) \<and> list_all event_ok (pending (press_cycle True)) \<and>
   (\<exists>s'. run_cycle (press_cycle True) (WaypointMaker []) = Inr s' \<and> \<not> save_waypoint s' \<and>
      length (marker_out s') = 1 \<and> waypoint_id s' = 1 \<and> csv_file s' = ''0,0,0\<newline>'')"
proof -
  have h1: "\<not> save_waypoint (WaypointMaker [])"
    by (simp add: WaypointMaker_def)
  have h2: "list_all event_ok (pending (press_cycle True))"
    by (simp add: press_cycle_def joy_ok_def pressed_joy_def)
  have pr: "list_ex save_pressed (pending (press_cycle True))"
    by (simp add: press_cycle_def pressed_joy_def)
  have j: "list_all is_joy (pending (press_cycle True))"
    by (simp add: press_cycle_def)
  have o: "open_ok (press_cycle True)"
    by (simp add: press_cycle_def)
  have init: "marker_out (WaypointMaker []) = []" "waypoint_id (WaypointMaker []) = 0"
    "csv_file (WaypointMaker []) = []"
    by (simp_all add: WaypointMaker_def)
  from C7_save_iff_pressed_message [OF h1 h2] pr o
  obtain s' where r: "run_cycle (press_cycle True) (WaypointMaker []) = Inr s'"
    and c: "\<not> save_waypoint s'"
    and m: "length (marker_out s') = 1" "waypoint_id s' = 1"
    and f: "csv_file s' = csv_record (current_pose s') @ ''\<newline>''"
    by (auto simp: init)
  from run_cycle_pose [OF r j] have p: "current_pose s' = current_pose (WaypointMaker [])" .
  from f have "csv_file s' = ''0,0,0\<newline>''"
    by (simp add: p csv_record_def initial_pose yaw_of_identity fmt_finite_0)
  with h1 h2 r c m show ?thesis
    by blast
qed

subsection \<open>Before the first pose message\<close>

text \<open>
  C10: as long as no pose message has been received, whatever \<^verbatim>\<open>Joy\<close> messages and
  saves there were, the stored pose is \<open>x = 0\<close>, \<open>y = 0\<close>, \<open>z = 0\<close>, \<open>w = 1\<close>, and a
  save records the waypoint \<open>(0, 0, 0)\<close>: the yaw is \<open>atan2 0 1 = 0\<close> and the line
  written is \<^verbatim>\<open>0,0,0\<close>.
\<close>

theorem C10_initial_pose_saved_as_origin:
  assumes "list_all joy_only cs" and "run cs (WaypointMaker file) = Inr s"
  shows "current_pose s =
           \<lparr>position = \<lparr>px = Fin 0, py = Fin 0, pz = Fin 0\<rparr>,
            orientation = \<lparr>qx = Fin 0, qy = Fin 0, qz = Fin 0, qw = Fin 1\<rparr>\<rparr> \<and>
         saveWaypointToCSV True (current_pose s) s =
           s\<lparr>csv_file := csv_file s @ ''0,0,0\<newline>'',
             log_out := log_out s @ [InfoWaypointSaved (Fin 0) (Fin 0) (Fin 0)]\<rparr>"
proof -
  from run_pose [OF assms(2) assms(1)] have p: "current_pose s =
      \<lparr>position = \<lparr>px = Fin 0, py = Fin 0, pz = Fin 0\<rparr>, orientation = \<lparr>qx = Fin 0, qy = Fin 0, qz = Fin 0, qw = Fin 1\<rparr>\<rparr>"
    by (simp add: initial_pose)
  show ?thesis
    by (simp add: p saveWaypointToCSV_open csv_record_def initial_pose yaw_of_identity fmt_finite_0)
qed

theorem C10_initial_pose_saved_as_origin_witness:
  "list_all joy_only [release_cycle] \<and>
   run [release_cycle] (WaypointMaker []) =
     Inr ((WaypointMaker [])\<lparr>cmd_vel_out := [twist_of released_joy]\<rparr>) \<and>
   current_pose ((WaypointMaker [])\<lparr>cmd_vel_out := [twist_of released_joy]\<rparr>) =
     \<lparr>position = \<lparr>px = Fin 0, py = Fin 0, pz = Fin 0\<rparr>, orientation = \<lparr>qx = Fin 0, qy = Fin 0, qz = Fin 0, qw = Fin 1\<rparr>\<rparr> \<and>
   csv_file (saveWaypointToCSV True
      (current_pose ((WaypointMaker [])\<lparr>cmd_vel_out := [twist_of released_joy]\<rparr>))
      ((WaypointMaker [])\<lparr>cmd_vel_out := [twist_of released_joy]\<rparr>)) = ''0,0,0\<newline>'' \<and>
   log_out (saveWaypointToCSV True
      (current_pose ((WaypointMaker [])\<lparr>cmd_vel_out := [twist_of released_joy]\<rparr>))
      ((WaypointMaker [])\<lparr>cmd_vel_out := [twist_of released_joy]\<rparr>)) = [InfoWaypointSaved (Fin 0) (Fin 0) (Fin 0)]"
proof -
  let ?s = "(WaypointMaker [])\<lparr>cmd_vel_out := [twist_of released_joy]\<rparr>"
  have h1: "list_all joy_only [release_cycle]"
    by (simp add: joy_only_def release_cycle_def)
  have h2: "run [release_cycle] (WaypointMaker []) = Inr ?s"
    by (simp add: run_cycle_def release_cycle_def joyCallback_ok joy_ok_def released_joy_def
        save_if_requested_def WaypointMaker_def)
  note t = C10_initial_pose_saved_as_origin [OF h1 h2]
  from t have p: "current_pose ?s =
      \<lparr>position = \<lparr>px = Fin 0, py = Fin 0, pz = Fin 0\<rparr>, orientation = \<lparr>qx = Fin 0, qy = Fin 0, qz = Fin 0, qw = Fin 1\<rparr>\<rparr>"
    by (rule conjunct1)
  from t have b: "saveWaypointToCSV True (current_pose ?s) ?s =
      ?s\<lparr>csv_file := csv_file ?s @ ''0,0,0\<newline>'', log_out := log_out ?s @ [InfoWaypointSaved (Fin 0) (Fin 0) (Fin 0)]\<rparr>"
    by (rule conjunct2)
  have c: "csv_file (saveWaypointToCSV True (current_pose ?s) ?s) = ''0,0,0\<newline>''"
    by (subst b) (simp add: WaypointMaker_def)
  have l: "log_out (saveWaypointToCSV True (current_pose ?s) ?s) = [InfoWaypointSaved (Fin 0) (Fin 0) (Fin 0)]"
    by (subst b) (simp add: WaypointMaker_def)
  from h1 h2 p c l show ?thesis
    by (intro conjI)
qed

subsection \<open>Markers\<close>

text \<open>
  C9, as the claim states it: the id of the marker strictly increases across
  successive saves. The counter is a 32-bit \<^verbatim>\<open>int\<close>: in a run of 2147483649 saving
  iterations from the start, the marker after the one with id 2147483647 carries the
  bit pattern of -2147483648, which is smaller.
\<close>

theorem C9_counter_wraps_counterexample:
  "map_option marker_id
     (nth_marker (run (replicate 2147483649 (press_cycle False)) (WaypointMaker [])) 2147483647) =
     Some 2147483647 \<and>
   map_option marker_id
     (nth_marker (run (replicate 2147483649 (press_cycle False)) (WaypointMaker [])) 2147483648) =
     Some 2147483648 \<and>
   sint (2147483648 :: 32 word) < sint (2147483647 :: 32 word)"
proof -
  have a: "(2147483647 :: nat) < 2147483649" and b: "(2147483648 :: nat) < 2147483649"
    by simp_all
  have c: "sint (2147483648 :: 32 word) < sint (2147483647 :: 32 word)"
    by simp
  from nth_marker_press [OF a, of False "[]"] nth_marker_press [OF b, of False "[]"] c
  show ?thesis
    by simp
qed

text \<open>
  C9, amended: every marker published in a run of the node from its start has
  \<^verbatim>\<open>frame_id\<close> \<open>map\<close>, namespace \<open>waypoints\<close>, the shape of an arrow, scale
  \<open>(0.3, 0.1, 0)\<close> and the colour \<open>(1, 0, 0, 1)\<close>; the \<open>j\<close>-th marker (counting
  from 0) has id \<open>j\<close> as long as \<open>j\<close> is below \<open>2 ^ 31\<close>, so up to there the ids
  strictly increase from one save to the next; and the marker of a save is placed at
  the pose stored at that moment.
\<close>

theorem C9_arrow_markers:
  assumes "nth_marker (run cs (WaypointMaker file)) j = Some m"
  shows "header_frame_id m = ''map'' \<and> ns m = ''waypoints'' \<and> marker_type m = ARROW \<and>
         action m = ADD \<and> scale m = \<lparr>vx = Fin (3 / 10), vy = Fin (1 / 10), vz = Fin 0\<rparr> \<and>
         color m = \<lparr>color_r = Fin 1, color_g = Fin 0, color_b = Fin 0, color_a = Fin 1\<rparr> \<and>
         (j < 2147483648 \<longrightarrow> sint (marker_id m) = int j) \<and>
         (i < j \<and> j < 2147483648 \<and> nth_marker (run cs (WaypointMaker file)) i = Some m' \<longrightarrow>
            sint (marker_id m') < sint (marker_id m)) \<and>
         (save_waypoint t \<longrightarrow>
            marker_out (save_if_requested c t) =
              marker_out t @ [createArrowMarker (now c) (waypoint_id t) (current_pose t)] \<and>
            marker_pose (createArrowMarker (now c) (waypoint_id t) (current_pose t)) =
              current_pose t)"
proof -
  from nth_marker_run [OF assms] obtain st p where m: "m = createArrowMarker st (of_nat j) p"
    by blast
  have fields: "header_frame_id m = ''map'' \<and> ns m = ''waypoints'' \<and> marker_type m = ARROW \<and>
      action m = ADD \<and> scale m = \<lparr>vx = Fin (3 / 10), vy = Fin (1 / 10), vz = Fin 0\<rparr> \<and>
      color m = \<lparr>color_r = Fin 1, color_g = Fin 0, color_b = Fin 0, color_a = Fin 1\<rparr>"
    by (simp add: m createArrowMarker_def)
  have id: "marker_id m = of_nat j"
    by (simp add: m createArrowMarker_def)
  have own: "sint (marker_id m) = int j" if "j < 2147483648"
    using that by (simp add: id sint_of_nat_small)
  have earlier: "sint (marker_id m') < sint (marker_id m)"
    if "i < j" and "j < 2147483648" and "nth_marker (run cs (WaypointMaker file)) i = Some m'"
  proof -
    from nth_marker_run [OF that(3)] have "marker_id m' = of_nat i"
      by (auto simp: createArrowMarker_def)
    with that(1,2) have "sint (marker_id m') = int i"
      by (simp add: sint_of_nat_small)
    with own [OF that(2)] that(1) show ?thesis
      by simp
  qed
  have placed: "marker_out (save_if_requested c t) =
        marker_out t @ [createArrowMarker (now c) (waypoint_id t) (current_pose t)] \<and>
      marker_pose (createArrowMarker (now c) (waypoint_id t) (current_pose t)) = current_pose t"
    if "save_waypoint t"
    using that by (simp add: save_if_requested_fields createArrowMarker_def)
  from fields own earlier placed show ?thesis
    by blast
qed

theorem C9_arrow_markers_witness:
  "nth_marker (run [press_cycle True, press_cycle True] (WaypointMaker [])) 1 =
     Some (createArrowMarker (0, 0) 1 (current_pose (WaypointMaker []))) \<and>
   header_frame_id (createArrowMarker (0, 0) 1 (current_pose (WaypointMaker []))) = ''map'' \<and>
   ns (createArrowMarker (0, 0) 1 (current_pose (WaypointMaker []))) = ''waypoints'' \<and>
   marker_type (createArrowMarker (0, 0) 1 (current_pose (WaypointMaker []))) = ARROW \<and>
   action (createArrowMarker (0, 0) 1 (current_pose (WaypointMaker []))) = ADD \<and>
   scale (createArrowMarker (0, 0) 1 (current_pose (WaypointMaker []))) =
     \<lparr>vx = Fin (3 / 10), vy = Fin (1 / 10), vz = Fin 0\<rparr> \<and>
   color (createArrowMarker (0, 0) 1 (current_pose (WaypointMaker []))) =
     \<lparr>color_r = Fin 1, color_g = Fin 0, color_b = Fin 0, color_a = Fin 1\<rparr> \<and>
   (1 :: nat) < 2147483648 \<and>
   sint (marker_id (createArrowMarker (0, 0) 1 (current_pose (WaypointMaker [])))) = 1 \<and>
   (0 :: nat) < 1 \<and>
   nth_marker (run [press_cycle True, press_cycle True] (WaypointMaker [])) 0 =
     Some (createArrowMarker (0, 0) 0 (current_pose (WaypointMaker []))) \<and>
   sint (marker_id (createArrowMarker (0, 0) 0 (current_pose (WaypointMaker [])))) <
     sint (marker_id (createArrowMarker (0, 0) 1 (current_pose (WaypointMaker [])))) \<and>
   save_waypoint ((WaypointMaker [])\<lparr>save_waypoint := True\<rparr>) \<and>
   marker_out (save_if_requested (press_cycle True) ((WaypointMaker [])\<lparr>save_waypoint := True\<rparr>)) =
     [createArrowMarker (0, 0) 0 (current_pose (WaypointMaker []))] \<and>
   marker_pose (createArrowMarker (0, 0) 0 (current_pose (WaypointMaker []))) =
     current_pose (WaypointMaker [])"
proof -
  let ?m0 = "createArrowMarker (0, 0) 0 (current_pose (WaypointMaker []))"
  let ?m1 = "createArrowMarker (0, 0) 1 (current_pose (WaypointMaker []))"
  let ?t = "(WaypointMaker [])\<lparr>save_waypoint := True\<rparr>"
  have step: "run_cycle (press_cycle True) s =
      Inr (save_if_requested (press_cycle True)
             (s\<lparr>save_waypoint := True, cmd_vel_out := cmd_vel_out s @ [twist_of pressed_joy]\<rparr>))" for s
    by (simp add: run_cycle_def spinOnce_press)
  have n: "now (press_cycle True) = (0, 0)"
    by (simp add: press_cycle_def)
  have init: "marker_out (WaypointMaker []) = []" "waypoint_id (WaypointMaker []) = 0"
    by (simp_all add: WaypointMaker_def)
  have out: "map_sum id marker_out (run [press_cycle True, press_cycle True] (WaypointMaker [])) =
      Inr [?m0, ?m1]"
    by (simp add: step save_if_requested_fields n init)
  then have h1: "nth_marker (run [press_cycle True, press_cycle True] (WaypointMaker [])) 1 = Some ?m1"
    and h0: "nth_marker (run [press_cycle True, press_cycle True] (WaypointMaker [])) 0 = Some ?m0"
    by (auto simp: nth_marker_def split: sum.splits)
  have t: "save_waypoint ?t"
    by simp
  have tf: "now (press_cycle True) = (0, 0)" "waypoint_id ?t = 0"
    "current_pose ?t = current_pose (WaypointMaker [])" "marker_out ?t = []"
    by (simp_all add: press_cycle_def WaypointMaker_def)
  from C9_arrow_markers [OF h1, of 0 ?m0 ?t "press_cycle True"] h1 h0 t show ?thesis
    by (simp add: tf)
qed

end
